theory Spec2Isabelle
  imports Main
begin

section \<open>Python strings\<close>

text \<open>
  A Python \<open>str\<close> is a sequence of Unicode code points and \<open>len\<close> counts code points,
  so a \<open>str\<close> is modelled as the list of its code points. The literals of the program
  are ASCII and are written through \<open>py\<close>.
\<close>

type_synonym py_str = "nat list"

definition py :: "string \<Rightarrow> py_str" where
  "py s = map of_char s"

text \<open>
  \<open>str.strip()\<close> without argument removes leading and trailing whitespace, where
  whitespace is what \<open>str.isspace\<close> accepts: the code points below.
\<close>

definition is_space :: "nat \<Rightarrow> bool" where
  "is_space c =
     ((9 \<le> c \<and> c \<le> 13) \<or> (28 \<le> c \<and> c \<le> 32) \<or> c = 133 \<or> c = 160 \<or> c = 5760 \<or>
      (8192 \<le> c \<and> c \<le> 8202) \<or> c = 8232 \<or> c = 8233 \<or> c = 8239 \<or> c = 8287 \<or>
      c = 12288)"

definition strip :: "py_str \<Rightarrow> py_str" where
  "strip v = rev (dropWhile is_space (rev (dropWhile is_space v)))"

text \<open>
  \<open>str(n)\<close> of an integer, which is what an f-string field \<open>{item_id}\<close> renders: the
  decimal digits, most significant first, after a minus sign when negative.
\<close>

fun str_nat :: "nat \<Rightarrow> py_str" where
  "str_nat n = (if n < 10 then [48 + n] else str_nat (n div 10) @ [48 + n mod 10])"

declare str_nat.simps [simp del]

definition str_int :: "int \<Rightarrow> py_str" where
  "str_int i = (if i < 0 then 45 # str_nat (nat (- i)) else str_nat (nat i))"

text \<open>
  What it is for a string to be the decimal numeral of an integer, said without
  \<open>str_int\<close>: the string is a canonical numeral (digits \<open>0\<close> to \<open>9\<close> only, at least one,
  no leading zero but for \<open>0\<close> itself, a minus sign in front only of a numeral that is
  not \<open>0\<close>), and its value, read digit by digit, is the integer. Reading fails on any
  other character.
\<close>

definition is_digit :: "nat \<Rightarrow> bool" where
  "is_digit c = (48 \<le> c \<and> c \<le> 57)"

definition nat_of_digits :: "py_str \<Rightarrow> nat" where
  "nat_of_digits ds = foldl (\<lambda>acc d. 10 * acc + (d - 48)) 0 ds"

definition parse_nat :: "py_str \<Rightarrow> nat option" where
  "parse_nat ds = (if ds \<noteq> [] \<and> list_all is_digit ds then Some (nat_of_digits ds) else None)"

definition parse_int :: "py_str \<Rightarrow> int option" where
  "parse_int s =
     (case s of
        [] \<Rightarrow> None
      | c # cs \<Rightarrow>
          if c = 45 then map_option (\<lambda>n. - int n) (parse_nat cs)
          else map_option int (parse_nat s))"

definition canonical_numeral :: "py_str \<Rightarrow> bool" where
  "canonical_numeral s =
     (case s of
        [] \<Rightarrow> False
      | c # cs \<Rightarrow>
          if c = 45 then cs \<noteq> [] \<and> list_all is_digit cs \<and> hd cs \<noteq> 48
          else list_all is_digit s \<and> (c \<noteq> 48 \<or> cs = []))"

text \<open>
  A \<open>str\<close> may hold a lone surrogate code point (\<open>U+D800\<close> to \<open>U+DFFF\<close>; the JSON escape
  \<open>\ud800\<close> decodes to one). Such a string has no UTF-8 encoding: the validation of a
  length-constrained \<open>str\<close> field rejects it, and a reply that carries it cannot be
  rendered.
\<close>

definition is_surrogate :: "nat \<Rightarrow> bool" where
  "is_surrogate c = (55296 \<le> c \<and> c \<le> 57343)"

definition well_formed :: "py_str \<Rightarrow> bool" where
  "well_formed s = list_all (\<lambda>c. \<not> is_surrogate c) s"

section \<open>The Item schema (app/schemas.py)\<close>

record Item =
  id_field :: int
  name :: py_str
  description :: "py_str option"

text \<open>
  The decoded JSON body of a request before validation: \<open>id\<close> and \<open>name\<close> are required
  (\<open>Field(...)\<close>) and may be missing; \<open>description\<close> defaults to \<open>None\<close>, so a missing
  description and a null one are both \<open>None\<close> here.
\<close>

record raw_item =
  raw_id :: "int option"
  raw_name :: "py_str option"
  raw_description :: "py_str option"

text \<open>
  The kinds of error the validation reports, each with the field it is about and the
  input it was raised on: the value of the field, or the whole body for a missing field.
\<close>

datatype violation =
  Missing | Greater_than | String_unicode | String_too_short | String_too_long | Value_error

datatype error_input = Int_input int | Str_input py_str | Body_input raw_item

type_synonym error_detail = "py_str \<times> violation \<times> error_input"

datatype value_error = ValueError py_str

text \<open>\<open>id: int = Field(..., gt=0)\<close>\<close>

definition check_id :: "raw_item \<Rightarrow> int option \<Rightarrow> error_detail list" where
  "check_id data v =
     (case v of
        None \<Rightarrow> [(py ''id'', Missing, Body_input data)]
      | Some i \<Rightarrow> if i > 0 then [] else [(py ''id'', Greater_than, Int_input i)])"

text \<open>The field validator of \<open>name\<close>: raises when the stripped name is empty.\<close>

definition name_must_not_be_blank :: "py_str \<Rightarrow> value_error + py_str" where
  "name_must_not_be_blank v =
     (if strip v = [] then Inl (ValueError (py ''Name cannot be blank or just spaces''))
      else Inr v)"

text \<open>
  \<open>name: str = Field(..., min_length=3, max_length=50)\<close>, then the field validator,
  which runs only on a name that passed the length constraints. A \<open>str\<close> field with a
  length constraint is first read as UTF-8, which fails on a lone surrogate.
\<close>

definition check_name :: "raw_item \<Rightarrow> py_str option \<Rightarrow> error_detail list" where
  "check_name data v =
     (case v of
        None \<Rightarrow> [(py ''name'', Missing, Body_input data)]
      | Some s \<Rightarrow>
          if \<not> well_formed s then [(py ''name'', String_unicode, Str_input s)]
          else if length s < 3 then [(py ''name'', String_too_short, Str_input s)]
          else if length s > 50 then [(py ''name'', String_too_long, Str_input s)]
          else (case name_must_not_be_blank s of
                  Inl e \<Rightarrow> [(py ''name'', Value_error, Str_input s)]
                | Inr s' \<Rightarrow> []))"

text \<open>\<open>description: Optional[str] = Field(default=None, max_length=200)\<close>\<close>

definition check_description :: "py_str option \<Rightarrow> error_detail list" where
  "check_description v =
     (case v of
        None \<Rightarrow> []
      | Some s \<Rightarrow>
          if \<not> well_formed s then [(py ''description'', String_unicode, Str_input s)]
          else if length s > 200 then [(py ''description'', String_too_long, Str_input s)]
          else [])"

text \<open>
  Validation of a body against \<open>Item\<close>: every field is checked, in the order of
  declaration, and the errors of all fields are reported together; an Item is built only
  when there is none.
\<close>

definition model_validate :: "raw_item \<Rightarrow> error_detail list + Item" where
  "model_validate raw =
     (let errors = check_id raw (raw_id raw) @ check_name raw (raw_name raw)
                     @ check_description (raw_description raw)
      in case (raw_id raw, raw_name raw) of
           (Some i, Some n) \<Rightarrow>
             if errors = [] then
               Inr \<lparr>id_field = i, name = n, description = raw_description raw\<rparr>
             else Inl errors
         | _ \<Rightarrow> Inl errors)"

section \<open>The handlers (app/main.py)\<close>

text \<open>
  \<open>items_db\<close> is a module-level dict from the integer id to the Item; each handler takes
  the current dict and returns its result with the dict it leaves. A raised
  \<open>HTTPException\<close> is the left summand.
\<close>

type_synonym items_db = "int \<rightharpoonup> Item"

datatype http_exception = HTTPException (status_code: nat) (detail: py_str)

datatype body =
    Item_body Item
  | Detail_body py_str
  | Message_body py_str
  | Errors_body "error_detail list"
  | Text_body py_str

definition create_item :: "items_db \<Rightarrow> Item \<Rightarrow> (http_exception + Item) \<times> items_db" where
  "create_item db item =
     (if db (id_field item) \<noteq> None then
        (Inl (HTTPException 400 (py ''Item already exists with this ID'')), db)
      else (Inr item, db(id_field item \<mapsto> item)))"

definition get_item :: "items_db \<Rightarrow> int \<Rightarrow> (http_exception + Item) \<times> items_db" where
  "get_item db item_id =
     (case db item_id of
        None \<Rightarrow> (Inl (HTTPException 404 (py ''Item not found'')), db)
      | Some item \<Rightarrow> (Inr item, db))"

definition update_item ::
  "items_db \<Rightarrow> int \<Rightarrow> Item \<Rightarrow> (http_exception + Item) \<times> items_db" where
  "update_item db item_id updated_item =
     (if db item_id = None then (Inl (HTTPException 404 (py ''Item not found'')), db)
      else (Inr updated_item, db(item_id \<mapsto> updated_item)))"

definition delete_item :: "items_db \<Rightarrow> int \<Rightarrow> (http_exception + body) \<times> items_db" where
  "delete_item db item_id =
     (if db item_id = None then (Inl (HTTPException 404 (py ''Item not found'')), db)
      else (Inr (Detail_body (py ''Item '' @ str_int item_id @ py '' deleted successfully'')),
            db(item_id := None)))"

definition read_root :: "items_db \<Rightarrow> (http_exception + body) \<times> items_db" where
  "read_root db =
     (Inr (Message_body (py ''Welcome to the Item API. Visit /docs for Swagger UI.'')), db)"

section \<open>The routes\<close>

text \<open>
  What the route decorators declare: the method and path of each handler, the status of
  a successful reply (201 for the create route, 200 otherwise), the validation of a body
  parameter of type \<open>Item\<close> before the handler is called (on a failure the handler is
  not called), and the reply \<open>{"detail": ...}\<close> with the exception's status for a raised
  \<open>HTTPException\<close>. The reply to a validation failure is 422 with the errors and their
  inputs as JSON; when an input cannot be encoded, rendering that reply fails and the
  server answers 500.
\<close>

datatype request =
    POST_items raw_item
  | GET_item int
  | PUT_item int raw_item
  | DELETE_item int
  | GET_root

datatype response = Response (status: nat) (content: body)

definition reply :: "nat \<Rightarrow> ('a \<Rightarrow> body) \<Rightarrow> (http_exception + 'a) \<Rightarrow> response" where
  "reply ok ser r =
     (case r of
        Inl e \<Rightarrow> Response (status_code e) (Detail_body (detail e))
      | Inr v \<Rightarrow> Response ok (ser v))"

definition body_encodable :: "raw_item \<Rightarrow> bool" where
  "body_encodable data =
     ((case raw_name data of None \<Rightarrow> True | Some s \<Rightarrow> well_formed s) \<and>
      (case raw_description data of None \<Rightarrow> True | Some s \<Rightarrow> well_formed s))"

fun input_encodable :: "error_input \<Rightarrow> bool" where
  "input_encodable (Int_input i) = True"
| "input_encodable (Str_input s) = well_formed s"
| "input_encodable (Body_input data) = body_encodable data"

definition validation_reply :: "error_detail list \<Rightarrow> response" where
  "validation_reply errors =
     (if list_all (\<lambda>e. input_encodable (snd (snd e))) errors then
        Response 422 (Errors_body errors)
      else Response 500 (Text_body (py ''Internal Server Error'')))"

fun handle_request :: "items_db \<Rightarrow> request \<Rightarrow> response \<times> items_db" where
  "handle_request db (POST_items raw) =
     (case model_validate raw of
        Inl errors \<Rightarrow> (validation_reply errors, db)
      | Inr item \<Rightarrow> (case create_item db item of (r, db') \<Rightarrow> (reply 201 Item_body r, db')))"
| "handle_request db (GET_item item_id) =
     (case get_item db item_id of (r, db') \<Rightarrow> (reply 200 Item_body r, db'))"
| "handle_request db (PUT_item item_id raw) =
     (case model_validate raw of
        Inl errors \<Rightarrow> (validation_reply errors, db)
      | Inr item \<Rightarrow>
          (case update_item db item_id item of (r, db') \<Rightarrow> (reply 200 Item_body r, db')))"
| "handle_request db (DELETE_item item_id) =
     (case delete_item db item_id of (r, db') \<Rightarrow> (reply 200 (\<lambda>b. b) r, db'))"
| "handle_request db GET_root =
     (case read_root db of (r, db') \<Rightarrow> (reply 200 (\<lambda>b. b) r, db'))"

text \<open>The dict after a sequence of requests, served one after the other.\<close>

fun serve :: "items_db \<Rightarrow> request list \<Rightarrow> items_db" where
  "serve db [] = db"
| "serve db (r # rs) = serve (snd (handle_request db r)) rs"

section \<open>The field constraints, as the specification words them\<close>

text \<open>
  \<open>id\<close> strictly greater than 0; \<open>name\<close> of 3 to 50 characters with at least one
  character that is not whitespace; \<open>description\<close> absent or of at most 200 characters.
\<close>

definition id_ok :: "int \<Rightarrow> bool" where
  "id_ok i = (0 < i)"

definition name_ok :: "py_str \<Rightarrow> bool" where
  "name_ok n = (3 \<le> length n \<and> length n \<le> 50 \<and> list_ex (\<lambda>c. \<not> is_space c) n)"

definition description_ok :: "py_str option \<Rightarrow> bool" where
  "description_ok d = (case d of None \<Rightarrow> True | Some s \<Rightarrow> length s \<le> 200)"

definition valid_item :: "Item \<Rightarrow> bool" where
  "valid_item it = (id_ok (id_field it) \<and> name_ok (name it) \<and> description_ok (description it))"

definition satisfies_constraints :: "raw_item \<Rightarrow> bool" where
  "satisfies_constraints raw =
     (case (raw_id raw, raw_name raw) of
        (Some i, Some n) \<Rightarrow> id_ok i \<and> name_ok n \<and> description_ok (raw_description raw)
      | _ \<Rightarrow> False)"

section \<open>The requests of the test suite (tests/test_main.py)\<close>

definition item1 :: Item where
  "item1 = \<lparr>id_field = 1, name = py ''Item1'', description = Some (py ''A test item'')\<rparr>"

definition updated_data :: Item where
  "updated_data =
     \<lparr>id_field = 1, name = py ''UpdatedItem'', description = Some (py ''Updated description'')\<rparr>"

definition nonexistent :: Item where
  "nonexistent =
     \<lparr>id_field = 999, name = py ''NonExistent'', description = Some (py ''Does not exist'')\<rparr>"

definition raw_of :: "Item \<Rightarrow> raw_item" where
  "raw_of it =
     \<lparr>raw_id = Some (id_field it), raw_name = Some (name it), raw_description = description it\<rparr>"

text \<open>Bodies at the boundaries of the constraints.\<close>

definition short_name :: raw_item where
  "short_name = \<lparr>raw_id = Some 1, raw_name = Some (py ''ab''), raw_description = None\<rparr>"

definition padded_name :: raw_item where
  "padded_name = \<lparr>raw_id = Some 1, raw_name = Some (py '' a ''), raw_description = None\<rparr>"

definition blank_name :: raw_item where
  "blank_name = \<lparr>raw_id = Some 1, raw_name = Some (replicate 5 32), raw_description = None\<rparr>"

definition zero_id :: raw_item where
  "zero_id = \<lparr>raw_id = Some 0, raw_name = Some (py ''Item1''), raw_description = None\<rparr>"

definition negative_id :: raw_item where
  "negative_id = \<lparr>raw_id = Some (- 5), raw_name = Some (py ''Item1''), raw_description = None\<rparr>"

definition long_description :: raw_item where
  "long_description =
     \<lparr>raw_id = Some 1, raw_name = Some (py ''Item1''), raw_description = Some (replicate 201 97)\<rparr>"

text \<open>
  The body \<open>{"id": 1, "name": "ab\ud800"}\<close>: a name of three characters, the last one a
  lone surrogate.
\<close>

definition surrogate_name :: raw_item where
  "surrogate_name = \<lparr>raw_id = Some 1, raw_name = Some [97, 98, 55296], raw_description = None\<rparr>"

text \<open>A body is rejected when the validation returns errors instead of an Item.\<close>

definition rejected :: "raw_item \<Rightarrow> bool" where
  "rejected raw = isl (model_validate raw)"

section \<open>Properties of the string functions\<close>

lemma dropWhile_all_iff: "(\<forall>x\<in>set (dropWhile P xs). P x) \<longleftrightarrow> (\<forall>x\<in>set xs. P x)"
proof
  assume a: "\<forall>x\<in>set (dropWhile P xs). P x"
  have "dropWhile P xs = []"
  proof (rule ccontr)
    assume ne: "dropWhile P xs \<noteq> []"
    then have "\<not> P (hd (dropWhile P xs))" by (rule hd_dropWhile)
    moreover have "hd (dropWhile P xs) \<in> set (dropWhile P xs)" using ne by simp
    ultimately show False using a by blast
  qed
  then show "\<forall>x\<in>set xs. P x" by (simp add: dropWhile_eq_Nil_conv)
next
  assume "\<forall>x\<in>set xs. P x"
  then show "\<forall>x\<in>set (dropWhile P xs). P x" by (meson set_dropWhileD)
qed

text \<open>Stripping leaves nothing exactly when every character is whitespace.\<close>

lemma strip_empty_iff: "strip v = [] \<longleftrightarrow> list_all is_space v"
  by (simp add: strip_def dropWhile_eq_Nil_conv dropWhile_all_iff list_all_iff)

lemma blank_iff: "strip v = [] \<longleftrightarrow> \<not> list_ex (\<lambda>c. \<not> is_space c) v"
  by (simp add: strip_empty_iff list_all_iff list_ex_iff)

lemma nat_of_digits_snoc: "nat_of_digits (ds @ [d]) = 10 * nat_of_digits ds + (d - 48)"
  by (simp add: nat_of_digits_def)

lemma nat_of_digits_str_nat: "nat_of_digits (str_nat n) = n"
proof (induction n rule: str_nat.induct)
  case (1 n)
  show ?case
  proof (cases "n < 10")
    case True
    then show ?thesis by (simp add: str_nat.simps [of n] nat_of_digits_def)
  next
    case False
    with 1 show ?thesis by (simp add: str_nat.simps [of n] nat_of_digits_snoc)
  qed
qed

lemma str_nat_nonempty: "str_nat n \<noteq> []"
  by (simp add: str_nat.simps [of n])

lemma str_nat_digits: "list_all is_digit (str_nat n)"
proof (induction n rule: str_nat.induct)
  case (1 n)
  show ?case
  proof (cases "n < 10")
    case True
    then show ?thesis by (simp add: str_nat.simps [of n] is_digit_def)
  next
    case False
    have "n mod 10 < 10" by simp
    then have "is_digit (48 + n mod 10)" unfolding is_digit_def by linarith
    with 1 False show ?thesis by (simp add: str_nat.simps [of n])
  qed
qed

lemma str_nat_zero: "str_nat 0 = [48]"
  by (simp add: str_nat.simps [of 0])

text \<open>No leading zero but for the numeral of 0.\<close>

lemma str_nat_hd: "0 < n \<Longrightarrow> hd (str_nat n) \<noteq> 48"
proof (induction n rule: str_nat.induct)
  case (1 n)
  show ?case
  proof (cases "n < 10")
    case True
    with "1.prems" show ?thesis by (simp add: str_nat.simps [of n])
  next
    case False
    then have "0 < n div 10" by (simp add: div_greater_zero_iff)
    with False "1.IH" have "hd (str_nat (n div 10)) \<noteq> 48" by simp
    with False show ?thesis by (simp add: str_nat.simps [of n] str_nat_nonempty)
  qed
qed

lemma parse_nat_str_nat: "parse_nat (str_nat n) = Some n"
  by (simp add: parse_nat_def str_nat_nonempty str_nat_digits nat_of_digits_str_nat)

lemma str_nat_Cons: "\<exists>c cs. str_nat n = c # cs \<and> is_digit c \<and> (0 < n \<longrightarrow> c \<noteq> 48)"
proof -
  obtain c cs where e: "str_nat n = c # cs" using str_nat_nonempty [of n] by (cases "str_nat n") auto
  have "is_digit c" using str_nat_digits [of n] e by simp
  moreover have "0 < n \<longrightarrow> c \<noteq> 48" using str_nat_hd [of n] e by simp
  ultimately show ?thesis using e by blast
qed

text \<open>The rendering of an integer is its canonical decimal numeral.\<close>

lemma parse_int_str_int: "parse_int (str_int i) = Some i"
proof (cases "i < 0")
  case True
  then show ?thesis by (simp add: str_int_def parse_int_def parse_nat_str_nat)
next
  case False
  obtain c cs where h: "str_nat (nat i) = c # cs" "is_digit c" using str_nat_Cons by blast
  then have "c \<noteq> 45" by (simp add: is_digit_def)
  moreover have "parse_nat (c # cs) = Some (nat i)" using parse_nat_str_nat [of "nat i"] h by simp
  ultimately show ?thesis using False h by (simp add: str_int_def parse_int_def)
qed

lemma canonical_numeral_str_int: "canonical_numeral (str_int i)"
proof (cases "i < 0")
  case True
  then have "0 < nat (- i)" by simp
  then have "hd (str_nat (nat (- i))) \<noteq> 48" by (rule str_nat_hd)
  with True show ?thesis
    by (simp add: str_int_def canonical_numeral_def str_nat_nonempty str_nat_digits)
next
  case False
  obtain c cs where h: "str_nat (nat i) = c # cs" "is_digit c" "0 < nat i \<longrightarrow> c \<noteq> 48"
    using str_nat_Cons by blast
  have d: "list_all is_digit (c # cs)" using str_nat_digits [of "nat i"] h by simp
  have n: "c \<noteq> 45" using h by (simp add: is_digit_def)
  have z: "c \<noteq> 48 \<or> cs = []"
  proof (cases "nat i = 0")
    case True
    with h show ?thesis by (simp add: str_nat_zero)
  next
    case False
    with h show ?thesis by simp
  qed
  from False h d n z show ?thesis by (simp add: str_int_def canonical_numeral_def)
qed

section \<open>Validation against the field constraints\<close>

text \<open>
  The validation returns an Item exactly for a body that satisfies the constraints and
  holds no lone surrogate, and the Item has the fields of the body.
\<close>

lemma model_validate_iff:
  "model_validate raw = Inr it \<longleftrightarrow>
     satisfies_constraints raw \<and> body_encodable raw \<and> raw_id raw = Some (id_field it) \<and>
     raw_name raw = Some (name it) \<and> raw_description raw = description it"
  by (cases raw; cases it)
     (auto simp: model_validate_def satisfies_constraints_def check_id_def check_name_def
        check_description_def name_must_not_be_blank_def id_ok_def name_ok_def description_ok_def
        body_encodable_def blank_iff Let_def
        split: option.splits if_splits sum.splits)

lemma model_validate_valid: "model_validate raw = Inr it \<Longrightarrow> valid_item it"
  by (cases raw; cases it)
     (auto simp: model_validate_iff satisfies_constraints_def valid_item_def)

lemma model_validate_raw_of:
  "valid_item it \<Longrightarrow> body_encodable (raw_of it) \<Longrightarrow> model_validate (raw_of it) = Inr it"
  by (simp add: model_validate_iff satisfies_constraints_def valid_item_def raw_of_def)

lemma valid_item1: "valid_item item1"
  by (simp add: valid_item_def item1_def id_ok_def name_ok_def description_ok_def py_def
      is_space_def)

lemma valid_updated_data: "valid_item updated_data"
  by (simp add: valid_item_def updated_data_def id_ok_def name_ok_def description_ok_def py_def
      is_space_def)

lemma valid_nonexistent: "valid_item nonexistent"
  by (simp add: valid_item_def nonexistent_def id_ok_def name_ok_def description_ok_def py_def
      is_space_def)

lemma validate_item1: "model_validate (raw_of item1) = Inr item1"
proof -
  have "body_encodable (raw_of item1)"
    by (simp add: body_encodable_def raw_of_def item1_def well_formed_def is_surrogate_def py_def)
  with valid_item1 show ?thesis by (rule model_validate_raw_of)
qed

lemma validate_updated_data: "model_validate (raw_of updated_data) = Inr updated_data"
proof -
  have "body_encodable (raw_of updated_data)"
    by (simp add: body_encodable_def raw_of_def updated_data_def well_formed_def
        is_surrogate_def py_def)
  with valid_updated_data show ?thesis by (rule model_validate_raw_of)
qed

lemma validate_nonexistent: "model_validate (raw_of nonexistent) = Inr nonexistent"
proof -
  have "body_encodable (raw_of nonexistent)"
    by (simp add: body_encodable_def raw_of_def nonexistent_def well_formed_def
        is_surrogate_def py_def)
  with valid_nonexistent show ?thesis by (rule model_validate_raw_of)
qed

lemma rejected_iff: "rejected raw \<longleftrightarrow> \<not> (satisfies_constraints raw \<and> body_encodable raw)"
proof -
  have "(\<exists>it. model_validate raw = Inr it) \<longleftrightarrow> satisfies_constraints raw \<and> body_encodable raw"
  proof
    assume "\<exists>it. model_validate raw = Inr it"
    then show "satisfies_constraints raw \<and> body_encodable raw"
      by (auto simp: model_validate_iff)
  next
    assume s: "satisfies_constraints raw \<and> body_encodable raw"
    then obtain i n where "raw_id raw = Some i" "raw_name raw = Some n"
      by (auto simp: satisfies_constraints_def split: option.splits)
    with s have
      "model_validate raw = Inr \<lparr>id_field = i, name = n, description = raw_description raw\<rparr>"
      by (simp add: model_validate_iff)
    then show "\<exists>it. model_validate raw = Inr it" by blast
  qed
  then show ?thesis
    by (cases "model_validate raw") (auto simp: rejected_def)
qed

text \<open>
  The errors of a body can be rendered exactly when the body holds no lone surrogate: a
  string with one is itself the input of a \<open>String_unicode\<close> error.
\<close>

lemma errors_encodable_iff:
  "list_all (\<lambda>e. input_encodable (snd (snd e)))
     (check_id raw (raw_id raw) @ check_name raw (raw_name raw)
        @ check_description (raw_description raw)) \<longleftrightarrow> body_encodable raw"
  by (auto simp: check_id_def check_name_def check_description_def body_encodable_def
      split: option.splits sum.splits)

lemma model_validate_errors:
  "model_validate raw = Inl errors \<Longrightarrow>
     errors = check_id raw (raw_id raw) @ check_name raw (raw_name raw)
                @ check_description (raw_description raw)"
  by (auto simp: model_validate_def Let_def split: option.splits if_splits)

lemma rejected_reply:
  assumes "model_validate raw = Inl errors"
  shows "validation_reply errors =
           (if body_encodable raw then Response 422 (Errors_body errors)
            else Response 500 (Text_body (py ''Internal Server Error'')))"
  using errors_encodable_iff [of raw] model_validate_errors [OF assms]
  by (simp add: validation_reply_def)

section \<open>The routes on a valid body\<close>

lemma handle_POST_valid:
  "model_validate raw = Inr it \<Longrightarrow>
     handle_request db (POST_items raw) =
       (reply 201 Item_body (fst (create_item db it)), snd (create_item db it))"
  by (simp split: prod.splits)

lemma handle_PUT_valid:
  "model_validate raw = Inr it \<Longrightarrow>
     handle_request db (PUT_item i raw) =
       (reply 200 Item_body (fst (update_item db i it)), snd (update_item db i it))"
  by (simp split: prod.splits)

lemma handle_GET:
  "handle_request db (GET_item i) = (reply 200 Item_body (fst (get_item db i)), db)"
  by (simp add: get_item_def split: option.splits)

lemma handle_DELETE:
  "handle_request db (DELETE_item i) =
     (reply 200 (\<lambda>b. b) (fst (delete_item db i)), snd (delete_item db i))"
  by (simp split: prod.splits)

section \<open>Create and get\<close>

text \<open>
  Claim C1. For every valid Item \<open>A\<close> and every dict in which \<open>A\<close>'s id is not a key,
  the create handler returns \<open>A\<close> and the get handler, called next with \<open>A\<close>'s id,
  returns \<open>A\<close> as well: the same id, name and description. Through the routes, for a
  body that the validation turns into \<open>A\<close>, the replies are 201 and 200, both with \<open>A\<close>
  as body.
\<close>

theorem create_then_get:
  assumes "valid_item A" and "db (id_field A) = None"
  shows "fst (create_item db A) = Inr A \<and>
         fst (get_item (snd (create_item db A)) (id_field A)) = Inr A \<and>
         (model_validate raw = Inr A \<longrightarrow>
            fst (handle_request db (POST_items raw)) = Response 201 (Item_body A) \<and>
            fst (handle_request (snd (handle_request db (POST_items raw)))
                   (GET_item (id_field A))) = Response 200 (Item_body A))"
proof -
  have c: "create_item db A = (Inr A, db(id_field A \<mapsto> A))"
    using assms(2) by (simp add: create_item_def)
  have g: "fst (get_item (db(id_field A \<mapsto> A)) (id_field A)) = Inr A"
    by (simp add: get_item_def)
  from c g show ?thesis
    by (simp add: handle_POST_valid handle_GET reply_def del: handle_request.simps)
qed

theorem create_then_get_witness:
  "valid_item item1 \<and> (Map.empty :: items_db) (id_field item1) = None \<and>
   fst (create_item Map.empty item1) = Inr item1 \<and>
   fst (get_item (snd (create_item Map.empty item1)) 1) = Inr item1 \<and>
   fst (handle_request Map.empty (POST_items (raw_of item1))) = Response 201 (Item_body item1)"
proof -
  have v: "valid_item item1" by (rule valid_item1)
  have k: "(Map.empty :: items_db) (id_field item1) = None" by simp
  have "id_field item1 = 1" by (simp add: item1_def)
  with create_then_get [of item1 Map.empty "raw_of item1", OF v k] v validate_item1
  show ?thesis by (simp del: handle_request.simps)
qed

text \<open>
  Claim C2. For every dict and every valid Item whose id is already a key, the create
  handler raises the exception of status 400 and detail "Item already exists with this
  ID" and leaves the dict as it was: the key still maps to the value stored before and
  the set of keys is the same. The route, on a body that the validation turns into the
  Item, replies 400 with that detail.
\<close>

theorem create_duplicate_rejected:
  assumes "valid_item it" and "db (id_field it) = Some old"
  shows "create_item db it =
           (Inl (HTTPException 400 (py ''Item already exists with this ID'')), db) \<and>
         snd (create_item db it) (id_field it) = Some old \<and>
         dom (snd (create_item db it)) = dom db \<and>
         (model_validate raw = Inr it \<longrightarrow>
            handle_request db (POST_items raw) =
              (Response 400 (Detail_body (py ''Item already exists with this ID'')), db))"
proof -
  have c: "create_item db it =
      (Inl (HTTPException 400 (py ''Item already exists with this ID'')), db)"
    using assms(2) by (simp add: create_item_def)
  with assms show ?thesis
    by (simp add: handle_POST_valid reply_def del: handle_request.simps)
qed

theorem create_duplicate_rejected_witness:
  "valid_item updated_data \<and>
   ([1 \<mapsto> item1] :: items_db) (id_field updated_data) = Some item1 \<and>
   create_item [1 \<mapsto> item1] updated_data =
     (Inl (HTTPException 400 (py ''Item already exists with this ID'')), [1 \<mapsto> item1]) \<and>
   snd (create_item [1 \<mapsto> item1] updated_data) 1 = Some item1 \<and>
   dom (snd (create_item [1 \<mapsto> item1] updated_data)) = {1} \<and>
   handle_request [1 \<mapsto> item1] (POST_items (raw_of updated_data)) =
     (Response 400 (Detail_body (py ''Item already exists with this ID'')), [1 \<mapsto> item1])"
proof -
  have v: "valid_item updated_data" by (rule valid_updated_data)
  have i: "id_field updated_data = 1" by (simp add: updated_data_def)
  have k: "[1 \<mapsto> item1] (id_field updated_data) = Some item1" by (simp add: i)
  from create_duplicate_rejected
    [of updated_data "[1 \<mapsto> item1]" item1 "raw_of updated_data", OF v k]
    v k i validate_updated_data
  show ?thesis by (simp del: handle_request.simps)
qed

section \<open>Update\<close>

text \<open>
  Claim C3. Update replaces the whole record: for every id that is a key and every valid
  Item \<open>it\<close>, the update handler returns \<open>it\<close>, the dict then holds \<open>it\<close> under that id
  whatever was stored before, and the get handler on the id returns exactly \<open>it\<close>, so
  each field is \<open>it\<close>'s and none is the old value's. The route, on a body that the
  validation turns into \<open>it\<close>, replies 200 with \<open>it\<close>.
\<close>

theorem update_replaces_record:
  assumes "db i = Some old" and "valid_item it"
  shows "fst (update_item db i it) = Inr it \<and>
         snd (update_item db i it) i = Some it \<and>
         fst (get_item (snd (update_item db i it)) i) = Inr it \<and>
         id_field (projr (fst (get_item (snd (update_item db i it)) i))) = id_field it \<and>
         name (projr (fst (get_item (snd (update_item db i it)) i))) = name it \<and>
         description (projr (fst (get_item (snd (update_item db i it)) i))) = description it \<and>
         (model_validate raw = Inr it \<longrightarrow>
            fst (handle_request db (PUT_item i raw)) = Response 200 (Item_body it))"
proof -
  have u: "update_item db i it = (Inr it, db(i \<mapsto> it))"
    using assms(1) by (simp add: update_item_def)
  have g: "fst (get_item (db(i \<mapsto> it)) i) = Inr it" by (simp add: get_item_def)
  from u g show ?thesis
    by (simp add: handle_PUT_valid reply_def del: handle_request.simps)
qed

theorem update_replaces_record_witness:
  "([1 \<mapsto> item1] :: items_db) 1 = Some item1 \<and> valid_item updated_data \<and>
   fst (update_item [1 \<mapsto> item1] 1 updated_data) = Inr updated_data \<and>
   fst (get_item (snd (update_item [1 \<mapsto> item1] 1 updated_data)) 1) = Inr updated_data \<and>
   name updated_data \<noteq> name item1 \<and> description updated_data \<noteq> description item1 \<and>
   fst (handle_request [1 \<mapsto> item1] (PUT_item 1 (raw_of updated_data))) =
     Response 200 (Item_body updated_data)"
proof -
  have k: "[1 \<mapsto> item1] (1::int) = Some item1" by simp
  have v: "valid_item updated_data" by (rule valid_updated_data)
  have d: "name updated_data \<noteq> name item1 \<and> description updated_data \<noteq> description item1"
    by (simp add: updated_data_def item1_def py_def)
  from update_replaces_record
    [of "[1 \<mapsto> item1]" 1 item1 updated_data "raw_of updated_data", OF k v]
    k v d validate_updated_data
  show ?thesis by (simp del: handle_request.simps)
qed

text \<open>
  Claim C4. The update handler stores the body's Item under the key of the path without
  reconciling the two ids: for every id \<open>i\<close> that is a key and every valid Item \<open>it\<close>
  whose id differs from \<open>i\<close>, the dict afterwards maps \<open>i\<close> to \<open>it\<close>, so the id of the
  stored Item is not its key, the entry at \<open>it\<close>'s own id is what it was (none is
  created there), and the set of keys is unchanged.
\<close>

theorem update_keeps_path_key:
  assumes "db i = Some old" and "valid_item it" and "id_field it \<noteq> i"
  shows "snd (update_item db i it) i = Some it \<and>
         id_field (the (snd (update_item db i it) i)) \<noteq> i \<and>
         snd (update_item db i it) (id_field it) = db (id_field it) \<and>
         dom (snd (update_item db i it)) = dom db"
  using assms by (auto simp: update_item_def)

theorem update_keeps_path_key_witness:
  "([1 \<mapsto> item1] :: items_db) 1 = Some item1 \<and> valid_item nonexistent \<and>
   id_field nonexistent \<noteq> 1 \<and>
   snd (update_item [1 \<mapsto> item1] 1 nonexistent) 1 = Some nonexistent \<and>
   id_field (the (snd (update_item [1 \<mapsto> item1] 1 nonexistent) 1)) = 999 \<and>
   snd (update_item [1 \<mapsto> item1] 1 nonexistent) 999 = None \<and>
   dom (snd (update_item [1 \<mapsto> item1] 1 nonexistent)) = {1}"
proof -
  have k: "[1 \<mapsto> item1] (1::int) = Some item1" by simp
  have v: "valid_item nonexistent" by (rule valid_nonexistent)
  have i: "id_field nonexistent = 999" by (simp add: nonexistent_def)
  have n: "id_field nonexistent \<noteq> 1" by (simp add: i)
  from update_keeps_path_key [of "[1 \<mapsto> item1]" 1 item1 nonexistent, OF k v n] k v n i
  show ?thesis by simp
qed

section \<open>Absent ids and delete\<close>

text \<open>
  Claim C5. For every dict and every id that is not a key, the get, update and delete
  handlers each raise the exception of status 404 and detail "Item not found", and the
  dict is the same after the failing call. The routes reply 404 with that detail (the
  update route on a body that passes validation).
\<close>

theorem absent_id_not_found:
  assumes "db i = None"
  shows "get_item db i = (Inl (HTTPException 404 (py ''Item not found'')), db) \<and>
         update_item db i it = (Inl (HTTPException 404 (py ''Item not found'')), db) \<and>
         delete_item db i = (Inl (HTTPException 404 (py ''Item not found'')), db) \<and>
         handle_request db (GET_item i) = (Response 404 (Detail_body (py ''Item not found'')), db) \<and>
         handle_request db (DELETE_item i) =
           (Response 404 (Detail_body (py ''Item not found'')), db) \<and>
         (model_validate raw = Inr it \<longrightarrow>
            handle_request db (PUT_item i raw) =
              (Response 404 (Detail_body (py ''Item not found'')), db))"
proof -
  have g: "get_item db i = (Inl (HTTPException 404 (py ''Item not found'')), db)"
    using assms by (simp add: get_item_def)
  have u: "update_item db i it = (Inl (HTTPException 404 (py ''Item not found'')), db)"
    using assms by (simp add: update_item_def)
  have d: "delete_item db i = (Inl (HTTPException 404 (py ''Item not found'')), db)"
    using assms by (simp add: delete_item_def)
  from g u d show ?thesis
    by (simp add: handle_GET handle_DELETE handle_PUT_valid reply_def del: handle_request.simps)
qed

theorem absent_id_not_found_witness:
  "([1 \<mapsto> item1] :: items_db) 999 = None \<and> valid_item nonexistent \<and>
   get_item [1 \<mapsto> item1] 999 =
     (Inl (HTTPException 404 (py ''Item not found'')), [1 \<mapsto> item1]) \<and>
   update_item [1 \<mapsto> item1] 999 nonexistent =
     (Inl (HTTPException 404 (py ''Item not found'')), [1 \<mapsto> item1]) \<and>
   delete_item [1 \<mapsto> item1] 999 =
     (Inl (HTTPException 404 (py ''Item not found'')), [1 \<mapsto> item1]) \<and>
   handle_request [1 \<mapsto> item1] (PUT_item 999 (raw_of nonexistent)) =
     (Response 404 (Detail_body (py ''Item not found'')), [1 \<mapsto> item1])"
proof -
  have k: "([1 \<mapsto> item1] :: items_db) 999 = None" by simp
  have v: "valid_item nonexistent" by (rule valid_nonexistent)
  from absent_id_not_found [of "[1 \<mapsto> item1]" 999 nonexistent "raw_of nonexistent", OF k]
    k v validate_nonexistent
  show ?thesis by (simp del: handle_request.simps)
qed

text \<open>
  Claim C6. For every dict and every id that is a key, the delete route replies 200 with
  the detail "Item \<open>id\<close> deleted successfully", where \<open>id\<close> is the canonical decimal
  numeral of the id: digits only, a minus sign when negative, no leading zero, and read
  as a decimal number it is the id. Afterwards the id is not a key, and a get or a delete
  on it raises the exception of status 404 and leaves the dict as it is.
\<close>

theorem delete_removes_key:
  assumes "db i = Some old"
  shows "handle_request db (DELETE_item i) =
           (Response 200 (Detail_body (py ''Item '' @ str_int i @ py '' deleted successfully'')),
            snd (delete_item db i)) \<and>
         canonical_numeral (str_int i) \<and>
         parse_int (str_int i) = Some i \<and>
         snd (delete_item db i) i = None \<and>
         get_item (snd (delete_item db i)) i =
           (Inl (HTTPException 404 (py ''Item not found'')), snd (delete_item db i)) \<and>
         delete_item (snd (delete_item db i)) i =
           (Inl (HTTPException 404 (py ''Item not found'')), snd (delete_item db i))"
  using assms
  by (simp add: delete_item_def get_item_def reply_def parse_int_str_int
      canonical_numeral_str_int)

theorem delete_removes_key_witness:
  "([1 \<mapsto> item1] :: items_db) 1 = Some item1 \<and>
   handle_request [1 \<mapsto> item1] (DELETE_item 1) =
     (Response 200 (Detail_body (py ''Item 1 deleted successfully'')), Map.empty) \<and>
   handle_request [10 \<mapsto> item1] (DELETE_item 10) =
     (Response 200 (Detail_body (py ''Item 10 deleted successfully'')), Map.empty) \<and>
   handle_request [999 \<mapsto> nonexistent] (DELETE_item 999) =
     (Response 200 (Detail_body (py ''Item 999 deleted successfully'')), Map.empty) \<and>
   handle_request [- 5 \<mapsto> item1] (DELETE_item (- 5)) =
     (Response 200 (Detail_body (py ''Item -5 deleted successfully'')), Map.empty) \<and>
   parse_int (py ''999'') = Some 999 \<and> parse_int (py ''-5'') = Some (- 5) \<and>
   get_item Map.empty 1 = (Inl (HTTPException 404 (py ''Item not found'')), Map.empty) \<and>
   delete_item Map.empty 1 = (Inl (HTTPException 404 (py ''Item not found'')), Map.empty)"
proof -
  have k1: "[1 \<mapsto> item1] (1::int) = Some item1" by simp
  have k2: "[10 \<mapsto> item1] (10::int) = Some item1" by simp
  have k3: "[999 \<mapsto> nonexistent] (999::int) = Some nonexistent" by simp
  have k4: "[- 5 \<mapsto> item1] (- 5::int) = Some item1" by simp
  have s1: "str_int 1 = py ''1''" by (simp add: str_int_def str_nat.simps py_def)
  have s2: "str_int 10 = py ''10''" by (simp add: str_int_def str_nat.simps py_def)
  have s3: "str_int 999 = py ''999''" by (simp add: str_int_def str_nat.simps py_def)
  have s4: "str_int (- 5) = py ''-5''" by (simp add: str_int_def str_nat.simps py_def)
  have c: "py ''Item '' @ py ''1'' @ py '' deleted successfully'' =
        py ''Item 1 deleted successfully'' \<and>
      py ''Item '' @ py ''10'' @ py '' deleted successfully'' =
        py ''Item 10 deleted successfully'' \<and>
      py ''Item '' @ py ''999'' @ py '' deleted successfully'' =
        py ''Item 999 deleted successfully'' \<and>
      py ''Item '' @ py ''-5'' @ py '' deleted successfully'' =
        py ''Item -5 deleted successfully''"
    by (simp add: py_def)
  have e: "snd (delete_item [1 \<mapsto> item1] 1) = Map.empty \<and>
      snd (delete_item [10 \<mapsto> item1] 10) = Map.empty \<and>
      snd (delete_item [999 \<mapsto> nonexistent] 999) = Map.empty \<and>
      snd (delete_item [- 5 \<mapsto> item1] (- 5)) = Map.empty"
    by (simp add: delete_item_def)
  note t1 = delete_removes_key [of "[1 \<mapsto> item1]" 1 item1, OF k1]
  note t2 = delete_removes_key [of "[10 \<mapsto> item1]" 10 item1, OF k2]
  note t3 = delete_removes_key [of "[999 \<mapsto> nonexistent]" 999 nonexistent, OF k3]
  note t4 = delete_removes_key [of "[- 5 \<mapsto> item1]" "- 5" item1, OF k4]
  from t1 t2 t3 t4 k1 s1 s2 s3 s4 c e show ?thesis
    by (simp del: handle_request.simps)
qed

section \<open>Validation\<close>

text \<open>
  The body \<open>surrogate_name\<close> meets the three field constraints as they are worded (id 1,
  a name of three characters none of which is whitespace, no description), and the
  validation rejects it, with the error \<open>String_unicode\<close> on the name.
\<close>

theorem validation_rejects_surrogate_counterexample:
  "satisfies_constraints surrogate_name \<and> rejected surrogate_name \<and>
   model_validate surrogate_name = Inl [(py ''name'', String_unicode, Str_input [97, 98, 55296])]"
  by (simp add: satisfies_constraints_def surrogate_name_def id_ok_def name_ok_def
      description_ok_def is_space_def rejected_def model_validate_def check_id_def
      check_name_def check_description_def well_formed_def is_surrogate_def)

text \<open>
  Claim C7, amended. The validation accepts exactly the bodies that satisfy the field
  constraints and whose name and description hold no lone surrogate code point. In
  particular a name of 2 characters is rejected; a name of 3 characters is accepted when
  one of them is not whitespace and none is a lone surrogate (the length is the untrimmed
  one, so surrounding blanks count); a name of whitespace only is rejected at any length;
  an id that is 0 or negative is rejected; a description of 201 characters is rejected
  and a body without description is accepted; and on a rejected body the create and
  update routes leave the dict as it was, replying 422, or 500 when the body holds a
  lone surrogate.
\<close>

theorem validation_accepts_exactly:
  "(\<not> rejected raw \<longleftrightarrow> satisfies_constraints raw \<and> body_encodable raw) \<and>
   (raw_name raw = Some n \<and> length n = 2 \<longrightarrow> rejected raw) \<and>
   (raw_id raw = Some i \<and> 0 < i \<and> raw_name raw = Some n \<and> length n = 3 \<and>
      list_ex (\<lambda>c. \<not> is_space c) n \<and> description_ok (raw_description raw) \<and>
      body_encodable raw \<longrightarrow>
      model_validate raw = Inr \<lparr>id_field = i, name = n, description = raw_description raw\<rparr>) \<and>
   (raw_name raw = Some n \<and> list_all is_space n \<longrightarrow> rejected raw) \<and>
   (raw_id raw = Some i \<and> i \<le> 0 \<longrightarrow> rejected raw) \<and>
   (raw_description raw = Some d \<and> length d = 201 \<longrightarrow> rejected raw) \<and>
   (raw_id raw = Some i \<and> 0 < i \<and> raw_name raw = Some n \<and> name_ok n \<and> well_formed n \<and>
      raw_description raw = None \<longrightarrow>
      model_validate raw = Inr \<lparr>id_field = i, name = n, description = None\<rparr>) \<and>
   (rejected raw \<longrightarrow>
      snd (handle_request db (POST_items raw)) = db \<and>
      snd (handle_request db (PUT_item j raw)) = db \<and>
      status (fst (handle_request db (POST_items raw))) = (if body_encodable raw then 422 else 500) \<and>
      status (fst (handle_request db (PUT_item j raw))) = (if body_encodable raw then 422 else 500))"
proof -
  have a: "\<not> rejected raw \<longleftrightarrow> satisfies_constraints raw \<and> body_encodable raw"
    by (simp add: rejected_iff)
  have b: "raw_name raw = Some n \<and> length n = 2 \<longrightarrow> rejected raw"
    by (auto simp: rejected_iff satisfies_constraints_def name_ok_def split: option.splits)
  have c: "raw_id raw = Some i \<and> 0 < i \<and> raw_name raw = Some n \<and> length n = 3 \<and>
      list_ex (\<lambda>c. \<not> is_space c) n \<and> description_ok (raw_description raw) \<and>
      body_encodable raw \<longrightarrow>
      model_validate raw = Inr \<lparr>id_field = i, name = n, description = raw_description raw\<rparr>"
    by (simp add: model_validate_iff satisfies_constraints_def name_ok_def id_ok_def)
  have d: "raw_name raw = Some n \<and> list_all is_space n \<longrightarrow> rejected raw"
    by (auto simp: rejected_iff satisfies_constraints_def name_ok_def list_all_iff list_ex_iff
        split: option.splits)
  have e: "raw_id raw = Some i \<and> i \<le> 0 \<longrightarrow> rejected raw"
    by (auto simp: rejected_iff satisfies_constraints_def id_ok_def split: option.splits)
  have f: "raw_description raw = Some d \<and> length d = 201 \<longrightarrow> rejected raw"
    by (auto simp: rejected_iff satisfies_constraints_def description_ok_def
        split: option.splits)
  have g: "raw_id raw = Some i \<and> 0 < i \<and> raw_name raw = Some n \<and> name_ok n \<and> well_formed n \<and>
      raw_description raw = None \<longrightarrow>
      model_validate raw = Inr \<lparr>id_field = i, name = n, description = None\<rparr>"
    by (simp add: model_validate_iff satisfies_constraints_def id_ok_def description_ok_def
        body_encodable_def)
  have h: "rejected raw \<longrightarrow>
      snd (handle_request db (POST_items raw)) = db \<and>
      snd (handle_request db (PUT_item j raw)) = db \<and>
      status (fst (handle_request db (POST_items raw))) = (if body_encodable raw then 422 else 500) \<and>
      status (fst (handle_request db (PUT_item j raw))) = (if body_encodable raw then 422 else 500)"
  proof (cases "model_validate raw")
    case (Inl errors)
    then show ?thesis by (simp add: rejected_reply)
  next
    case (Inr item)
    then show ?thesis by (simp add: rejected_def)
  qed
  from a b c d e f g h show ?thesis by blast
qed

theorem validation_accepts_exactly_witness:
  "rejected short_name \<and>
   model_validate padded_name = Inr \<lparr>id_field = 1, name = py '' a '', description = None\<rparr> \<and>
   rejected blank_name \<and> rejected zero_id \<and> rejected negative_id \<and>
   rejected long_description \<and>
   snd (handle_request [1 \<mapsto> item1] (POST_items blank_name)) = [1 \<mapsto> item1] \<and>
   snd (handle_request [1 \<mapsto> item1] (PUT_item 1 blank_name)) = [1 \<mapsto> item1] \<and>
   status (fst (handle_request [1 \<mapsto> item1] (POST_items blank_name))) = 422 \<and>
   rejected surrogate_name \<and>
   snd (handle_request [1 \<mapsto> item1] (PUT_item 1 surrogate_name)) = [1 \<mapsto> item1] \<and>
   status (fst (handle_request [1 \<mapsto> item1] (PUT_item 1 surrogate_name))) = 500"
proof -
  have h1: "raw_name short_name = Some (py ''ab'') \<and> length (py ''ab'') = 2"
    by (simp add: short_name_def py_def)
  have r1: "rejected short_name"
    using validation_accepts_exactly
      [where raw = short_name and n = "py ''ab''" and i = 1 and d = "[]" and db = Map.empty
        and j = 1] h1
    by blast
  have h2: "raw_id padded_name = Some 1 \<and> (0::int) < 1 \<and> raw_name padded_name = Some (py '' a '') \<and>
      length (py '' a '') = 3 \<and> list_ex (\<lambda>c. \<not> is_space c) (py '' a '') \<and>
      description_ok (raw_description padded_name) \<and> raw_description padded_name = None \<and>
      body_encodable padded_name"
    by (simp add: padded_name_def py_def is_space_def description_ok_def body_encodable_def
        well_formed_def is_surrogate_def)
  have r2: "model_validate padded_name =
      Inr \<lparr>id_field = 1, name = py '' a '', description = None\<rparr>"
    using validation_accepts_exactly
      [where raw = padded_name and n = "py '' a ''" and i = 1 and d = "[]" and db = Map.empty
        and j = 1] h2
    by (simp add: description_ok_def del: handle_request.simps)
  have h3: "raw_name blank_name = Some (replicate 5 32) \<and> list_all is_space (replicate 5 32) \<and>
      body_encodable blank_name"
    by (simp add: blank_name_def is_space_def list_all_iff body_encodable_def well_formed_def
        is_surrogate_def)
  note t3 = validation_accepts_exactly
      [where raw = blank_name and n = "replicate 5 32" and i = 1 and d = "[]"
        and db = "[1 \<mapsto> item1]" and j = 1]
  have r3: "rejected blank_name" using t3 h3 by blast
  have r3': "snd (handle_request [1 \<mapsto> item1] (POST_items blank_name)) = [1 \<mapsto> item1] \<and>
      snd (handle_request [1 \<mapsto> item1] (PUT_item 1 blank_name)) = [1 \<mapsto> item1] \<and>
      status (fst (handle_request [1 \<mapsto> item1] (POST_items blank_name))) = 422"
    using t3 r3 h3 by (simp del: handle_request.simps)
  have h4: "raw_id zero_id = Some 0 \<and> (0::int) \<le> 0" by (simp add: zero_id_def)
  have r4: "rejected zero_id"
    using validation_accepts_exactly
      [where raw = zero_id and n = "[]" and i = 0 and d = "[]" and db = Map.empty and j = 1] h4
    by blast
  have h5: "raw_id negative_id = Some (- 5) \<and> (- 5::int) \<le> 0" by (simp add: negative_id_def)
  have r5: "rejected negative_id"
    using validation_accepts_exactly
      [where raw = negative_id and n = "[]" and i = "- 5" and d = "[]" and db = Map.empty
        and j = 1] h5
    by blast
  have h6: "raw_description long_description = Some (replicate 201 97) \<and>
      length (replicate 201 (97::nat)) = 201"
    by (simp add: long_description_def)
  have r6: "rejected long_description"
    using validation_accepts_exactly
      [where raw = long_description and n = "[]" and i = 1 and d = "replicate 201 97"
        and db = Map.empty and j = 1] h6
    by blast
  have h7: "\<not> body_encodable surrogate_name"
    by (simp add: surrogate_name_def body_encodable_def well_formed_def is_surrogate_def)
  note t7 = validation_accepts_exactly
      [where raw = surrogate_name and n = "[]" and i = 1 and d = "[]"
        and db = "[1 \<mapsto> item1]" and j = 1]
  have r7: "rejected surrogate_name" using t7 h7 by blast
  have r7': "snd (handle_request [1 \<mapsto> item1] (PUT_item 1 surrogate_name)) = [1 \<mapsto> item1] \<and>
      status (fst (handle_request [1 \<mapsto> item1] (PUT_item 1 surrogate_name))) = 500"
    using t7 r7 h7 by (simp del: handle_request.simps)
  from r1 r2 r3 r3' r4 r5 r6 r7 r7' show ?thesis by blast
qed

section \<open>The invariant of the dict\<close>

lemma handle_request_valid:
  assumes "\<forall>k it. db k = Some it \<longrightarrow> valid_item it"
  shows "\<forall>k it. snd (handle_request db r) k = Some it \<longrightarrow> valid_item it"
proof (cases r)
  case (POST_items raw)
  with assms show ?thesis
    by (auto simp: create_item_def split: sum.splits if_splits dest: model_validate_valid)
next
  case (GET_item i)
  with assms show ?thesis by (auto simp: get_item_def split: option.splits)
next
  case (PUT_item i raw)
  with assms show ?thesis
    by (auto simp: update_item_def split: sum.splits if_splits dest: model_validate_valid)
next
  case (DELETE_item i)
  with assms show ?thesis by (auto simp: delete_item_def split: if_splits)
next
  case GET_root
  with assms show ?thesis by (simp add: read_root_def)
qed

lemma serve_valid:
  "\<forall>k it. db k = Some it \<longrightarrow> valid_item it \<Longrightarrow>
   \<forall>k it. serve db rs k = Some it \<longrightarrow> valid_item it"
proof (induction rs arbitrary: db)
  case Nil
  then show ?case by simp
next
  case (Cons r rs)
  have "\<forall>k it. snd (handle_request db r) k = Some it \<longrightarrow> valid_item it"
    using Cons.prems by (rule handle_request_valid)
  then show ?case using Cons.IH by simp
qed

text \<open>
  Claim C8. In every dict reached from the empty one by a sequence of requests (create,
  get, update, delete, in any order and number, each body going through the validation
  before its handler), every Item held satisfies the three field constraints: id above
  0; name of 3 to 50 characters with one that is not whitespace; description absent or of
  at most 200 characters.
\<close>

theorem store_invariant:
  "serve Map.empty rs k = Some it \<Longrightarrow>
     0 < id_field it \<and> 3 \<le> length (name it) \<and> length (name it) \<le> 50 \<and>
     list_ex (\<lambda>c. \<not> is_space c) (name it) \<and>
     (case description it of None \<Rightarrow> True | Some d \<Rightarrow> length d \<le> 200)"
  using serve_valid [of Map.empty rs]
  by (simp add: valid_item_def id_ok_def name_ok_def description_ok_def)

theorem store_invariant_witness:
  "serve Map.empty
     [POST_items (raw_of item1), GET_item 1, PUT_item 1 (raw_of updated_data),
      POST_items blank_name, DELETE_item 999] 1 = Some updated_data \<and>
   0 < id_field updated_data \<and> 3 \<le> length (name updated_data) \<and>
   length (name updated_data) \<le> 50 \<and>
   list_ex (\<lambda>c. \<not> is_space c) (name updated_data) \<and>
   (case description updated_data of None \<Rightarrow> True | Some d \<Rightarrow> length d \<le> 200)"
proof -
  have i1: "id_field item1 = 1" by (simp add: item1_def)
  have s1: "snd (handle_request Map.empty (POST_items (raw_of item1))) = [1 \<mapsto> item1]"
    by (simp add: handle_POST_valid [OF validate_item1] create_item_def i1
        del: handle_request.simps)
  have s2: "snd (handle_request [1 \<mapsto> item1] (GET_item 1)) = [1 \<mapsto> item1]"
    by (simp add: handle_GET del: handle_request.simps)
  have s3: "snd (handle_request [1 \<mapsto> item1] (PUT_item 1 (raw_of updated_data))) =
      [1 \<mapsto> updated_data]"
    by (simp add: handle_PUT_valid [OF validate_updated_data] update_item_def
        del: handle_request.simps)
  have b: "isl (model_validate blank_name)"
    by (simp add: blank_name_def model_validate_def check_id_def check_name_def
        check_description_def py_def name_must_not_be_blank_def strip_def is_space_def
        well_formed_def is_surrogate_def)
  have s4: "snd (handle_request [1 \<mapsto> updated_data] (POST_items blank_name)) =
      [1 \<mapsto> updated_data]"
    using b by (cases "model_validate blank_name") simp_all
  have s5: "snd (handle_request [1 \<mapsto> updated_data] (DELETE_item 999)) =
      [1 \<mapsto> updated_data]"
    by (simp add: handle_DELETE delete_item_def del: handle_request.simps)
  have r: "serve Map.empty
     [POST_items (raw_of item1), GET_item 1, PUT_item 1 (raw_of updated_data),
      POST_items blank_name, DELETE_item 999] 1 = Some updated_data"
    by (simp add: s1 s2 s3 s4 s5 del: handle_request.simps)
  from store_invariant [OF r] r show ?thesis by simp
qed

section \<open>Frame\<close>



section \<open>Create is not idempotent\<close>

text \<open>
  Claim C10. For every dict and every valid Item whose id is already a key, the create
  handler raises the exception of status 400, also when the Item is equal, field for
  field, to the one stored under that key; so a create that succeeded, sent again,
  is rejected and the dict stays as the first call left it.
\<close>

theorem create_not_idempotent:
  assumes "valid_item it"
  shows "(db (id_field it) = Some old \<longrightarrow>
            status_code (projl (fst (create_item db it))) = 400 \<and> isl (fst (create_item db it))) \<and>
         (db (id_field it) = Some it \<longrightarrow>
            create_item db it =
              (Inl (HTTPException 400 (py ''Item already exists with this ID'')), db)) \<and>
         (db (id_field it) = None \<longrightarrow>
            fst (create_item db it) = Inr it \<and>
            snd (create_item db it) (id_field it) = Some it \<and>
            create_item (snd (create_item db it)) it =
              (Inl (HTTPException 400 (py ''Item already exists with this ID'')),
               snd (create_item db it)))"
proof (cases "db (id_field it)")
  case None
  then have first: "create_item db it = (Inr it, db(id_field it \<mapsto> it))"
    by (simp add: create_item_def)
  have again: "create_item (db(id_field it \<mapsto> it)) it =
      (Inl (HTTPException 400 (py ''Item already exists with this ID'')),
       db(id_field it \<mapsto> it))"
    by (simp add: create_item_def)
  from None first again show ?thesis by simp
next
  case (Some stored)
  then have "create_item db it =
      (Inl (HTTPException 400 (py ''Item already exists with this ID'')), db)"
    by (simp add: create_item_def)
  with Some show ?thesis by simp
qed

theorem create_not_idempotent_witness:
  "valid_item item1 \<and>
   create_item [1 \<mapsto> item1] item1 =
     (Inl (HTTPException 400 (py ''Item already exists with this ID'')), [1 \<mapsto> item1]) \<and>
   fst (create_item Map.empty item1) = Inr item1 \<and>
   create_item (snd (create_item Map.empty item1)) item1 =
     (Inl (HTTPException 400 (py ''Item already exists with this ID'')),
      snd (create_item Map.empty item1))"
proof -
  have v: "valid_item item1" by (rule valid_item1)
  have i: "id_field item1 = 1" by (simp add: item1_def)
  have k1: "([1 \<mapsto> item1] :: items_db) (id_field item1) = Some item1" by (simp add: i)
  have k2: "(Map.empty :: items_db) (id_field item1) = None" by simp
  have r1: "create_item [1 \<mapsto> item1] item1 =
      (Inl (HTTPException 400 (py ''Item already exists with this ID'')), [1 \<mapsto> item1])"
    using create_not_idempotent [of item1 "[1 \<mapsto> item1]" item1, OF v] k1 by blast
  have r2: "fst (create_item Map.empty item1) = Inr item1 \<and>
      create_item (snd (create_item Map.empty item1)) item1 =
        (Inl (HTTPException 400 (py ''Item already exists with this ID'')),
         snd (create_item Map.empty item1))"
    using create_not_idempotent [of item1 Map.empty item1, OF v] k2 by blast
  from v r1 r2 show ?thesis by blast
qed

end
